theory Spec2Isabelle
  imports Complex_Main "HOL-Library.Log_Nat"
begin

section \<open>Data model of the game overlay service\<close>

text \<open>
  The service of \<^verbatim>\<open>src/app/services/game-overlay/index.ts\<close>. Screen coordinates are
  exact reals: halving a height and adding an integer offset are exact on doubles of
  screen size. The opacity and the transparency sent to the native module are values of
  the type \<open>number\<close> below, and the product with \<^verbatim>\<open>2.55\<close> is the IEEE 754 double product.
  Electron windows are records whose methods update fields; an exception raised inside
  Electron or inside the native overlay module is outside the model, a \<^verbatim>\<open>TypeError\<close>
  of the service's own property reads and its own \<^verbatim>\<open>throw\<close> are inside.
\<close>

subsection \<open>JavaScript numbers\<close>

text \<open>
  A JavaScript number: a finite double, an infinity or \<^verbatim>\<open>NaN\<close>. A finite double is the
  real it denotes; the two zeros are one value.
\<close>

datatype number = Finite real | PosInfinity | NegInfinity | NaN

text \<open>Rounding to the nearest integer, a tie to the even one.\<close>

definition roundHalfEven :: "real \<Rightarrow> int" where
  "roundHalfEven m =
     (let f = \<lfloor>m\<rfloor>; d = m - of_int f
      in if d < 1 / 2 then f else if 1 / 2 < d then f + 1 else if even f then f else f + 1)"

text \<open>The binary exponent of a positive real \<open>a\<close>: the \<open>e\<close> with \<open>2^e \<le> a < 2^(e+1)\<close>.\<close>

definition exponentOf :: "real \<Rightarrow> int" where
  "exponentOf a = (if 1 \<le> a then bitlen \<lfloor>a\<rfloor> - 1 else - bitlen (\<lceil>1 / a\<rceil> - 1))"

definition pow2 :: "int \<Rightarrow> real" where
  "pow2 k = (if 0 \<le> k then 2 ^ nat k else 1 / 2 ^ nat (- k))"

text \<open>
  The double nearest to a real, as IEEE 754 rounds the exact result of an operation: a
  significand of 53 bits, exponents from -1022 (below that the spacing stays
  \<open>2^-1074\<close>), ties to even, and an infinity once the rounded magnitude reaches \<open>2^1024\<close>.
\<close>

definition roundDouble :: "real \<Rightarrow> number" where
  "roundDouble x =
     (if x = 0 then Finite 0
      else
        let a = \<bar>x\<bar>;
            q = pow2 (max (exponentOf a) (- 1022) - 52);
            r = of_int (roundHalfEven (a / q)) * q
        in if 2 ^ 1024 \<le> r then (if 0 < x then PosInfinity else NegInfinity)
           else Finite (if 0 < x then r else - r))"

text \<open>The operator \<^verbatim>\<open>*\<close> on numbers.\<close>

fun jsTimes :: "number \<Rightarrow> number \<Rightarrow> number" where
  "jsTimes NaN y = NaN"
| "jsTimes x NaN = NaN"
| "jsTimes (Finite x) (Finite y) = roundDouble (x * y)"
| "jsTimes (Finite x) PosInfinity =
     (if x = 0 then NaN else if 0 < x then PosInfinity else NegInfinity)"
| "jsTimes (Finite x) NegInfinity =
     (if x = 0 then NaN else if 0 < x then NegInfinity else PosInfinity)"
| "jsTimes PosInfinity (Finite y) =
     (if y = 0 then NaN else if 0 < y then PosInfinity else NegInfinity)"
| "jsTimes NegInfinity (Finite y) =
     (if y = 0 then NaN else if 0 < y then NegInfinity else PosInfinity)"
| "jsTimes PosInfinity PosInfinity = PosInfinity"
| "jsTimes PosInfinity NegInfinity = NegInfinity"
| "jsTimes NegInfinity PosInfinity = NegInfinity"
| "jsTimes NegInfinity NegInfinity = PosInfinity"

text \<open>The value of the literal \<^verbatim>\<open>2.55\<close>: the double nearest to 2.55.\<close>

definition literal_2_55 :: number where
  "literal_2_55 = Finite (2871044762448691 / 2 ^ 50)"

subsection \<open>The service\<close>

datatype window_key = chat | recentEvents

record IVec2 =
  pos_x :: real
  pos_y :: real

record Rectangle =
  r_x :: real
  r_y :: real
  r_width :: real
  r_height :: real

record Display =
  bounds :: Rectangle
  workArea :: Rectangle

text \<open>One entry of \<^verbatim>\<open>IWindowProperties\<close>; the source's field \<^verbatim>\<open>id\<close> is \<open>overlayId\<close> here.\<close>

record IWindowProps =
  position :: "IVec2 option"
  overlayId :: "int option"

record GameOverlayState =
  isEnabled :: bool
  isShowing :: bool
  isPreviewEnabled :: bool
  previewMode :: bool
  opacity :: number
  windowProperties :: "window_key \<Rightarrow> IWindowProps"

text \<open>
  The status enumeration of the native module is not part of the sources; the service
  only compares it with \<^verbatim>\<open>Running\<close>.
\<close>

datatype OverlayThreadStatus = Stopped | Running

text \<open>The calls the service makes on the native overlay module, in order.\<close>

datatype overlay_call =
    Start
  | Stop
  | Show
  | Hide
  | AddHWND nat
  | SetPosition "int option" real real real real
  | SetTransparency "int option" number

record BrowserWindow =
  handle :: nat
  winBounds :: Rectangle
  visible :: bool
  destroyed :: bool
  loadListener :: bool
  loading :: bool
  invalidations :: nat
  paintsTo :: "int option"
  frameRate :: "nat option"

text \<open>
  The readiness pipeline \<^verbatim>\<open>onWindowsReady.pipe(take(n), delay(5000))\<close> with a
  \<^verbatim>\<open>complete\<close> observer: \<open>remaining\<close> counts the signals \<^verbatim>\<open>take\<close> still lets through,
  \<open>due\<close> is the time at which the delayed completion fires, \<open>closed\<close> is set once the
  observer has completed or the subscription was unsubscribed.
\<close>

record Pipeline =
  remaining :: nat
  due :: "nat option"
  closed :: bool

datatype error = TypeError | Error string

text \<open>What the service reads from its collaborators.\<close>

record Env =
  allDisplays :: "Display list"
  mainWindowDisplay :: Display
  overlayStatus :: OverlayThreadStatus
  addHWND :: "nat \<Rightarrow> int option"

text \<open>
  The service object. \<open>windows\<close> and \<open>previewWindows\<close> are JavaScript objects: association
  lists in insertion order. \<open>subscriptions\<close> holds every subscription made on the subject
  \<^verbatim>\<open>onWindowsReady\<close>, \<open>onWindowsReadySubscription\<close> the index of the one the field refers to.
  \<open>clock\<close> is the time in milliseconds, \<open>created\<close> the number of windows created so far
  (the native handle of a new window).
\<close>

record Service =
  state :: GameOverlayState
  windows :: "(window_key \<times> BrowserWindow) list"
  previewWindows :: "(window_key \<times> BrowserWindow) list"
  overlayWindow :: "BrowserWindow option"
  overlayCalls :: "overlay_call list"
  subscriptions :: "Pipeline list"
  onWindowsReadySubscription :: "nat option"
  clock :: nat
  created :: nat

definition defaultState :: GameOverlayState where
  "defaultState =
     \<lparr>isEnabled = False, isShowing = False, isPreviewEnabled = True, previewMode = False,
      opacity = Finite 100,
      windowProperties = (\<lambda>k. \<lparr>position = None, overlayId = None\<rparr>)\<rparr>"

definition newService :: Service where
  "newService =
     \<lparr>state = defaultState, windows = [], previewWindows = [], overlayWindow = None,
      overlayCalls = [], subscriptions = [], onWindowsReadySubscription = None,
      clock = 0, created = 0\<rparr>"

section \<open>Mutations\<close>

definition SET_PREVIEW_ENABLED :: "bool \<Rightarrow> Service \<Rightarrow> Service" where
  "SET_PREVIEW_ENABLED b s = s\<lparr>state := (state s)\<lparr>isPreviewEnabled := b\<rparr>\<rparr>"

definition TOGGLE_OVERLAY :: "bool \<Rightarrow> Service \<Rightarrow> Service" where
  "TOGGLE_OVERLAY b s = s\<lparr>state := (state s)\<lparr>isShowing := b\<rparr>\<rparr>"

definition SET_ENABLED :: "bool \<Rightarrow> Service \<Rightarrow> Service" where
  "SET_ENABLED b s = s\<lparr>state := (state s)\<lparr>isEnabled := b\<rparr>\<rparr>"

definition SET_PREVIEW_MODE :: "bool \<Rightarrow> Service \<Rightarrow> Service" where
  "SET_PREVIEW_MODE b s = s\<lparr>state := (state s)\<lparr>previewMode := b\<rparr>\<rparr>"

definition SET_WINDOW_ID :: "window_key \<Rightarrow> int option \<Rightarrow> Service \<Rightarrow> Service" where
  "SET_WINDOW_ID w i s =
     s\<lparr>state := (state s)\<lparr>windowProperties :=
          (windowProperties (state s))(w := (windowProperties (state s) w)\<lparr>overlayId := i\<rparr>)\<rparr>\<rparr>"

definition SET_WINDOW_POSITION :: "window_key \<Rightarrow> IVec2 option \<Rightarrow> Service \<Rightarrow> Service" where
  "SET_WINDOW_POSITION w p s =
     s\<lparr>state := (state s)\<lparr>windowProperties :=
          (windowProperties (state s))(w := (windowProperties (state s) w)\<lparr>position := p\<rparr>)\<rparr>\<rparr>"

definition SET_OPACITY :: "number \<Rightarrow> Service \<Rightarrow> Service" where
  "SET_OPACITY v s = s\<lparr>state := (state s)\<lparr>opacity := v\<rparr>\<rparr>"

section \<open>Helpers for objects, windows and the native module\<close>

text \<open>\<^verbatim>\<open>obj[k] = v\<close>: an existing property keeps its place, a new one goes last.\<close>

fun assign :: "'k \<Rightarrow> 'v \<Rightarrow> ('k \<times> 'v) list \<Rightarrow> ('k \<times> 'v) list" where
  "assign k v [] = [(k, v)]"
| "assign k v ((k', v') # kvs) =
     (if k' = k then (k, v) # kvs else (k', v') # assign k v kvs)"

text \<open>A method call on the window stored under a key.\<close>

definition onWindow ::
  "window_key \<Rightarrow> (BrowserWindow \<Rightarrow> BrowserWindow) \<Rightarrow>
   (window_key \<times> BrowserWindow) list \<Rightarrow> (window_key \<times> BrowserWindow) list" where
  "onWindow k f ws = map (\<lambda>(k', w). if k' = k then (k', f w) else (k', w)) ws"

definition onEachWindow ::
  "(BrowserWindow \<Rightarrow> BrowserWindow) \<Rightarrow>
   (window_key \<times> BrowserWindow) list \<Rightarrow> (window_key \<times> BrowserWindow) list" where
  "onEachWindow f ws = map (\<lambda>(k, w). (k, f w)) ws"

definition setBounds :: "Rectangle \<Rightarrow> BrowserWindow \<Rightarrow> BrowserWindow" where
  "setBounds r w = w\<lparr>winBounds := r\<rparr>"

definition overlayCall :: "overlay_call \<Rightarrow> Service \<Rightarrow> Service" where
  "overlayCall c s = s\<lparr>overlayCalls := overlayCalls s @ [c]\<rparr>"

text \<open>\<^verbatim>\<open>forEach\<close> with a callback that may throw: the first exception ends the loop.\<close>

fun forEach ::
  "'a list \<Rightarrow> ('a \<Rightarrow> 's \<Rightarrow> error option \<times> 's) \<Rightarrow> 's \<Rightarrow> error option \<times> 's" where
  "forEach [] f s = (None, s)"
| "forEach (a # as) f s =
     (case f a s of
        (None, s') \<Rightarrow> forEach as f s'
      | (Some e, s') \<Rightarrow> (Some e, s'))"

text \<open>The size literal of \<^verbatim>\<open>configureWindows\<close> and \<^verbatim>\<open>resetPosition\<close>, as a rectangle at a position.\<close>

definition boundsAt :: "window_key \<Rightarrow> IVec2 \<Rightarrow> Rectangle" where
  "boundsAt key pos =
     (if key = chat
      then \<lparr>r_x = pos_x pos, r_y = pos_y pos, r_width = 300, r_height = 600\<rparr>
      else \<lparr>r_x = pos_x pos, r_y = pos_y pos, r_width = 600, r_height = 300\<rparr>)"

text \<open>\<^verbatim>\<open>!overlayId\<close>: true of \<^verbatim>\<open>null\<close> and of the number 0.\<close>

definition falsy :: "int option \<Rightarrow> bool" where
  "falsy i = (case i of None \<Rightarrow> True | Some n \<Rightarrow> n = 0)"

section \<open>Positions\<close>

definition getWindowContainerStartingPosition :: "Env \<Rightarrow> real \<times> real" where
  "getWindowContainerStartingPosition env =
     (r_height (workArea (mainWindowDisplay env)) / 2 + 200,
      r_height (workArea (mainWindowDisplay env)) / 2 - 300)"

definition defaultPosition :: "Env \<Rightarrow> window_key \<Rightarrow> IVec2" where
  "defaultPosition env key =
     (case getWindowContainerStartingPosition env of (containerX, containerY) \<Rightarrow>
        \<lparr>pos_x = (if key = recentEvents then containerX - 600 else containerX),
         pos_y = containerY\<rparr>)"

text \<open>The predicate of the \<^verbatim>\<open>find\<close> in \<^verbatim>\<open>determineStartPosition\<close>.\<close>

definition onDisplay :: "IVec2 \<Rightarrow> Display \<Rightarrow> bool" where
  "onDisplay pos display =
     (let b = bounds display;
          intBounds = (pos_x pos > r_x b \<and> pos_y pos > r_y b);
          extBounds = (pos_x pos < r_x b + r_width b \<and> pos_y pos < r_y b + r_height b)
      in intBounds \<and> extBounds)"

definition determineStartPosition :: "Env \<Rightarrow> window_key \<Rightarrow> Service \<Rightarrow> IVec2 \<times> Service" where
  "determineStartPosition env window s =
     (case position (windowProperties (state s) window) of
        Some pos \<Rightarrow>
          (case find (onDisplay pos) (allDisplays env) of
             Some display \<Rightarrow> (pos, s)
           | None \<Rightarrow> (defaultPosition env window, SET_WINDOW_POSITION window None s))
      | None \<Rightarrow> (defaultPosition env window, SET_WINDOW_POSITION window None s))"

definition resetPosition_key :: "Env \<Rightarrow> window_key \<Rightarrow> Service \<Rightarrow> error option \<times> Service" where
  "resetPosition_key env key s =
     (let oid = overlayId (windowProperties (state s) key) in
      if falsy oid then (None, s)
      else
        let s1 = SET_WINDOW_POSITION key None s;
            pos = defaultPosition env key;
            b = boundsAt key pos;
            s2 = s1\<lparr>windows := onWindow key (setBounds b) (windows s1)\<rparr>
        in (case map_of (previewWindows s2) key of
              None \<Rightarrow> (Some TypeError, s2)
            | Some _ \<Rightarrow>
                (None,
                 overlayCall (SetPosition oid (pos_x pos) (pos_y pos) (r_width b) (r_height b))
                   (s2\<lparr>previewWindows := onWindow key (setBounds b) (previewWindows s2)\<rparr>))))"

definition resetPosition :: "Env \<Rightarrow> Service \<Rightarrow> error option \<times> Service" where
  "resetPosition env s = forEach (map fst (windows s)) (resetPosition_key env) s"

section \<open>Showing, hiding and preview mode\<close>

definition showOverlay :: "Service \<Rightarrow> Service" where
  "showOverlay s =
     (let s1 = TOGGLE_OVERLAY True (overlayCall Show s)
      in s1\<lparr>windows := onEachWindow (\<lambda>w. w\<lparr>invalidations := invalidations w + 1\<rparr>) (windows s1)\<rparr>)"

definition hideOverlay :: "Service \<Rightarrow> Service" where
  "hideOverlay s = TOGGLE_OVERLAY False (overlayCall Hide s)"

text \<open>
  The callback of the \<^verbatim>\<open>forEach\<close> in the leaving branch of \<^verbatim>\<open>setPreviewMode\<close>. Its
  \<^verbatim>\<open>win.hide()\<close> runs after an \<^verbatim>\<open>await\<close>, in a microtask; it touches the visibility of
  one preview window only, which nothing else in the same turn reads, so it is applied
  in place.
\<close>

definition leavePreview :: "window_key \<Rightarrow> Service \<Rightarrow> Service" where
  "leavePreview key s =
     (case map_of (previewWindows s) key of
        None \<Rightarrow> s
      | Some win \<Rightarrow>
          (let oid = overlayId (windowProperties (state s) key);
               x = r_x (winBounds win);
               y = r_y (winBounds win);
               s1 = SET_WINDOW_POSITION key (Some \<lparr>pos_x = x, pos_y = y\<rparr>) s;
               s2 = overlayCall
                      (SetPosition oid x y (r_width (winBounds win)) (r_height (winBounds win))) s1
           in s2\<lparr>previewWindows := onWindow key (\<lambda>w. w\<lparr>visible := False\<rparr>) (previewWindows s2)\<rparr>))"

definition setPreviewMode :: "bool \<Rightarrow> Service \<Rightarrow> Service" where
  "setPreviewMode pm s =
     (let s1 = (if isShowing (state s) then hideOverlay s else s) in
      if \<not> isEnabled (state s1) then s1
      else
        let s2 = SET_PREVIEW_MODE pm s1 in
        if pm
        then s2\<lparr>previewWindows := onEachWindow (\<lambda>w. w\<lparr>visible := True\<rparr>) (previewWindows s2)\<rparr>
        else fold leavePreview (map fst (previewWindows s2)) s2)"

definition toggleOverlay :: "Env \<Rightarrow> Service \<Rightarrow> Service" where
  "toggleOverlay env s =
     (if overlayStatus env \<noteq> Running \<or> \<not> isEnabled (state s) then s
      else
        let s1 = (if previewMode (state s) then setPreviewMode False s else s)
        in if isShowing (state s1) then hideOverlay s1 else showOverlay s1)"

definition setOverlayOpacity :: "number \<Rightarrow> Service \<Rightarrow> Service" where
  "setOverlayOpacity percentage s =
     (let s1 = SET_OPACITY percentage s in
      if \<not> isEnabled (state s1) then s1
      else
        fold (\<lambda>key s'. overlayCall
                 (SetTransparency (overlayId (windowProperties (state s') key))
                    (jsTimes percentage literal_2_55)) s')
             (map fst (windows s1)) s1)"

definition setPreviewEnabled :: "bool \<Rightarrow> Service \<Rightarrow> Service" where
  "setPreviewEnabled shouldEnable s = SET_PREVIEW_ENABLED shouldEnable s"

section \<open>Tearing down\<close>

definition unsubscribe :: "nat \<Rightarrow> Pipeline list \<Rightarrow> Pipeline list" where
  "unsubscribe i ps = (if i < length ps then ps[i := (ps ! i)\<lparr>closed := True\<rparr>] else ps)"

definition destroyOverlay :: "Service \<Rightarrow> Service" where
  "destroyOverlay s =
     (let s1 =
        (if isEnabled (state s)
         then
           let a = overlayCall Stop s;
               b = (case onWindowsReadySubscription a of
                      None \<Rightarrow> a
                    | Some i \<Rightarrow> a\<lparr>subscriptions := unsubscribe i (subscriptions a)\<rparr>);
               c = b\<lparr>windows := onEachWindow (\<lambda>w. w\<lparr>destroyed := True\<rparr>) (windows b)\<rparr>
           in c\<lparr>previewWindows := onEachWindow (\<lambda>w. w\<lparr>destroyed := True\<rparr>) (previewWindows c)\<rparr>
         else s)
      in TOGGLE_OVERLAY False (SET_PREVIEW_MODE False s1))"

section \<open>Registering the windows with the native module\<close>

definition getPosition :: "window_key \<Rightarrow> BrowserWindow \<Rightarrow> Service \<Rightarrow> IVec2" where
  "getPosition key win s =
     (case position (windowProperties (state s) key) of
        Some p \<Rightarrow> p
      | None \<Rightarrow> \<lparr>pos_x = r_x (winBounds win), pos_y = r_y (winBounds win)\<rparr>)"

text \<open>
  The callback of the \<^verbatim>\<open>forEach\<close> in \<^verbatim>\<open>createWindowOverlays\<close>. The field
  \<^verbatim>\<open>overlayWindow\<close> is never assigned in the class: when it is still undefined, the
  \<^verbatim>\<open>hide()\<close> before the \<^verbatim>\<open>throw\<close> raises a \<^verbatim>\<open>TypeError\<close> instead.
\<close>

definition createWindowOverlays_key ::
  "Env \<Rightarrow> window_key \<Rightarrow> Service \<Rightarrow> error option \<times> Service" where
  "createWindowOverlays_key env key s =
     (case map_of (windows s) key of
        None \<Rightarrow> (Some TypeError, s)
      | Some win \<Rightarrow>
          (let s1 = overlayCall (AddHWND (handle win)) s;
               oid = addHWND env (handle win)
           in if oid = Some (- 1) \<or> oid = None
              then (case overlayWindow s1 of
                      None \<Rightarrow> (Some TypeError, s1)
                    | Some ow \<Rightarrow>
                        (Some (Error ''Error creating overlay''),
                         s1\<lparr>overlayWindow := Some (ow\<lparr>visible := False\<rparr>)\<rparr>))
              else
                let s2 = SET_WINDOW_ID key oid s1;
                    p = getPosition key win s2;
                    s3 = overlayCall
                           (SetPosition oid (pos_x p) (pos_y p)
                              (r_width (winBounds win)) (r_height (winBounds win))) s2;
                    s4 = overlayCall
                           (SetTransparency oid (jsTimes (opacity (state s3)) literal_2_55)) s3
                in (None,
                    s4\<lparr>windows :=
                         onWindow key (\<lambda>w. w\<lparr>paintsTo := oid, frameRate := Some 1\<rparr>) (windows s4)\<rparr>)))"

definition createWindowOverlays :: "Env \<Rightarrow> Service \<Rightarrow> error option \<times> Service" where
  "createWindowOverlays env s = forEach (map fst (windows s)) (createWindowOverlays_key env) s"

section \<open>Initialisation and the readiness pipeline\<close>

text \<open>
  Subscribing to \<^verbatim>\<open>pipe(take(n), delay(5000))\<close> at time \<open>now\<close>. \<^verbatim>\<open>take(0)\<close> is the empty
  stream: it completes on subscription, and \<^verbatim>\<open>delay\<close> hands the completion on 5000 ms
  later.
\<close>

definition subscribe :: "nat \<Rightarrow> nat \<Rightarrow> Pipeline" where
  "subscribe n now =
     \<lparr>remaining = n, due = (if n = 0 then Some (now + 5000) else None), closed = False\<rparr>"

text \<open>\<^verbatim>\<open>onWindowsReady.next(win)\<close> as one subscription sees it at time \<open>now\<close>.\<close>

definition pipelineNext :: "nat \<Rightarrow> Pipeline \<Rightarrow> Pipeline" where
  "pipelineNext now p =
     (if closed p \<or> remaining p = 0 then p
      else if remaining p = 1 then p\<lparr>remaining := 0, due := Some (now + 5000)\<rparr>
      else p\<lparr>remaining := remaining p - 1\<rparr>)"

definition newWindow :: "nat \<Rightarrow> Rectangle \<Rightarrow> BrowserWindow" where
  "newWindow h r =
     \<lparr>handle = h, winBounds = r, visible = False, destroyed = False, loadListener = False,
      loading = False, invalidations = 0, paintsTo = None, frameRate = None\<rparr>"

text \<open>The geometry in \<^verbatim>\<open>commonWindowOptions\<close>, which nothing reads after the windows are created.\<close>

definition assignCommonWindowOptions :: "Env \<Rightarrow> Rectangle" where
  "assignCommonWindowOptions env =
     (case getWindowContainerStartingPosition env of (containerX, containerY) \<Rightarrow>
        \<lparr>r_x = containerX, r_y = containerY, r_width = 300, r_height = 300\<rparr>)"

definition createBrowserWindows :: "Rectangle \<Rightarrow> Service \<Rightarrow> Service" where
  "createBrowserWindows common s =
     (let s1 = s\<lparr>windows := assign recentEvents (newWindow (created s) (common\<lparr>r_width := 600\<rparr>)) (windows s),
                 created := created s + 1\<rparr>
      in s1\<lparr>windows := assign chat (newWindow (created s1) (common\<lparr>r_height := 600\<rparr>)) (windows s1),
            created := created s1 + 1\<rparr>)"

definition createPreviewWindows :: "Rectangle \<Rightarrow> Service \<Rightarrow> Service" where
  "createPreviewWindows common s =
     (let s1 = s\<lparr>previewWindows :=
                   assign recentEvents (newWindow (created s) (common\<lparr>r_width := 600\<rparr>)) (previewWindows s),
                 created := created s + 1\<rparr>
      in s1\<lparr>previewWindows :=
              assign chat (newWindow (created s1) (common\<lparr>r_height := 600\<rparr>)) (previewWindows s1),
            created := created s1 + 1\<rparr>)"

definition configureWindows_key :: "Env \<Rightarrow> window_key \<Rightarrow> Service \<Rightarrow> error option \<times> Service" where
  "configureWindows_key env key s =
     (let s1 = s\<lparr>windows := onWindow key (\<lambda>w. w\<lparr>loadListener := True\<rparr>) (windows s)\<rparr>
      in case determineStartPosition env key s1 of (pos, s2) \<Rightarrow>
           (let s3 = s2\<lparr>windows := onWindow key (setBounds (boundsAt key pos)) (windows s2)\<rparr>
            in case map_of (previewWindows s3) key of
                 None \<Rightarrow> (Some TypeError, s3)
               | Some _ \<Rightarrow>
                   (None,
                    s3\<lparr>previewWindows :=
                         onWindow key (setBounds (boundsAt key pos)) (previewWindows s3)\<rparr>)))"

definition configureWindows :: "Env \<Rightarrow> Service \<Rightarrow> error option \<times> Service" where
  "configureWindows env s =
     (case forEach (map fst (windows s)) (configureWindows_key env) s of
        (Some e, s1) \<Rightarrow> (Some e, s1)
      | (None, s1) \<Rightarrow>
          (None, s1\<lparr>windows := onEachWindow (\<lambda>w. w\<lparr>loading := True\<rparr>) (windows s1)\<rparr>))"

text \<open>
  \<^verbatim>\<open>initializeOverlay\<close>. The argument of \<^verbatim>\<open>take\<close> is read from \<^verbatim>\<open>this.windows\<close> when the
  pipeline is built, before \<^verbatim>\<open>createBrowserWindows\<close> runs.
\<close>

definition initializeOverlay :: "Env \<Rightarrow> Service \<Rightarrow> error option \<times> Service" where
  "initializeOverlay env s =
     (let s1 = overlayCall Start s;
          n = length (map fst (windows s1));
          s2 = s1\<lparr>subscriptions := subscriptions s1 @ [subscribe n (clock s1)],
                  onWindowsReadySubscription := Some (length (subscriptions s1))\<rparr>;
          common = assignCommonWindowOptions env;
          s3 = createBrowserWindows common s2;
          s4 = createPreviewWindows common s3
      in configureWindows env s4)"

definition setEnabled :: "Env \<Rightarrow> bool \<Rightarrow> Service \<Rightarrow> error option \<times> Service" where
  "setEnabled env shouldEnable s =
     (let shouldStart = (shouldEnable \<and> \<not> isEnabled (state s));
          shouldStop = (\<not> shouldEnable \<and> isEnabled (state s))
      in case (if shouldStart then initializeOverlay env s else (None, s)) of
           (Some e, s1) \<Rightarrow> (Some e, s1)
         | (None, s1) \<Rightarrow>
             (None, SET_ENABLED shouldEnable (if shouldStop then destroyOverlay s1 else s1)))"

section \<open>Events of the event loop\<close>

text \<open>
  A source window finishes loading: its one-shot listener, if armed, calls
  \<^verbatim>\<open>onWindowsReady.next(win)\<close>, which every open subscription sees.
\<close>

definition didFinishLoad :: "window_key \<Rightarrow> Service \<Rightarrow> Service" where
  "didFinishLoad key s =
     (case map_of (windows s) key of
        None \<Rightarrow> s
      | Some win \<Rightarrow>
          if loadListener win \<and> loading win
          then s\<lparr>windows := onWindow key (\<lambda>w. w\<lparr>loadListener := False, loading := False\<rparr>) (windows s),
                 subscriptions := map (pipelineNext (clock s)) (subscriptions s)\<rparr>
          else s)"

text \<open>
  Time passes: every open subscription whose delayed completion is due completes, and its
  observer runs \<^verbatim>\<open>createWindowOverlays\<close>; an exception there ends that callback only.
\<close>

fun fireDue :: "Env \<Rightarrow> nat list \<Rightarrow> Service \<Rightarrow> Service" where
  "fireDue env [] s = s"
| "fireDue env (i # is) s =
     (let p = subscriptions s ! i
      in if \<not> closed p \<and> (case due p of None \<Rightarrow> False | Some t \<Rightarrow> t \<le> clock s)
         then fireDue env is
                (snd (createWindowOverlays env
                        (s\<lparr>subscriptions := (subscriptions s)[i := p\<lparr>closed := True\<rparr>]\<rparr>)))
         else fireDue env is s)"

definition elapse :: "Env \<Rightarrow> nat \<Rightarrow> Service \<Rightarrow> Service" where
  "elapse env d s =
     (let s1 = s\<lparr>clock := clock s + d\<rparr>
      in fireDue env [0 ..< length (subscriptions s1)] s1)"

section \<open>Predicates used in the statements\<close>

text \<open>The two flags are not both set.\<close>

definition exclusive :: "Service \<Rightarrow> bool" where
  "exclusive s = (\<not> (previewMode (state s) \<and> isShowing (state s)))"

text \<open>
  The specification's wording of a valid saved position, "within a display's work area",
  read as generously as possible (edges included); the source's test is \<open>onDisplay\<close>.
\<close>

definition withinWorkArea :: "IVec2 \<Rightarrow> Display \<Rightarrow> bool" where
  "withinWorkArea pos d =
     (r_x (workArea d) \<le> pos_x pos \<and> pos_x pos \<le> r_x (workArea d) + r_width (workArea d) \<and>
      r_y (workArea d) \<le> pos_y pos \<and> pos_y pos \<le> r_y (workArea d) + r_height (workArea d))"

fun isAddHWND :: "overlay_call \<Rightarrow> bool" where
  "isAddHWND (AddHWND h) = True"
| "isAddHWND c = False"

section \<open>Concrete environments and services\<close>

text \<open>One full-HD display whose work area leaves 40 pixels to a task bar.\<close>

definition exDisplay :: Display where
  "exDisplay =
     \<lparr>bounds = \<lparr>r_x = 0, r_y = 0, r_width = 1920, r_height = 1080\<rparr>,
      workArea = \<lparr>r_x = 0, r_y = 0, r_width = 1920, r_height = 1040\<rparr>\<rparr>"

definition exEnv :: Env where
  "exEnv =
     \<lparr>allDisplays = [exDisplay], mainWindowDisplay = exDisplay, overlayStatus = Running,
      addHWND = (\<lambda>h. Some (int h + 1))\<rparr>"

text \<open>The native module accepts the window with handle 0 and rejects every other.\<close>

definition rejectingEnv :: Env where
  "rejectingEnv = exEnv\<lparr>addHWND := (\<lambda>h. if h = 0 then Some 7 else Some (- 1))\<rparr>"

definition stoppedEnv :: Env where
  "stoppedEnv = exEnv\<lparr>overlayStatus := Stopped\<rparr>"

definition exRecentEvents :: BrowserWindow where
  "exRecentEvents =
     \<lparr>handle = 0, winBounds = \<lparr>r_x = 120, r_y = 220, r_width = 600, r_height = 300\<rparr>,
      visible = False, destroyed = False, loadListener = True, loading = True,
      invalidations = 0, paintsTo = None, frameRate = None\<rparr>"

definition exChat :: BrowserWindow where
  "exChat =
     \<lparr>handle = 1, winBounds = \<lparr>r_x = 720, r_y = 220, r_width = 300, r_height = 600\<rparr>,
      visible = False, destroyed = False, loadListener = True, loading = True,
      invalidations = 0, paintsTo = None, frameRate = None\<rparr>"

definition exPreviewRecentEvents :: BrowserWindow where
  "exPreviewRecentEvents =
     \<lparr>handle = 2, winBounds = \<lparr>r_x = 120, r_y = 220, r_width = 600, r_height = 300\<rparr>,
      visible = False, destroyed = False, loadListener = False, loading = False,
      invalidations = 0, paintsTo = None, frameRate = None\<rparr>"

definition exPreviewChat :: BrowserWindow where
  "exPreviewChat =
     \<lparr>handle = 3, winBounds = \<lparr>r_x = 720, r_y = 220, r_width = 300, r_height = 600\<rparr>,
      visible = False, destroyed = False, loadListener = False, loading = False,
      invalidations = 0, paintsTo = None, frameRate = None\<rparr>"

text \<open>
  The service right after \<^verbatim>\<open>setEnabled(true)\<close> on a new service: both window pairs exist,
  both source windows are loading, nothing is registered yet.
\<close>

definition pendingService :: Service where
  "pendingService =
     \<lparr>state = defaultState\<lparr>isEnabled := True\<rparr>,
      windows = [(recentEvents, exRecentEvents), (chat, exChat)],
      previewWindows = [(recentEvents, exPreviewRecentEvents), (chat, exPreviewChat)],
      overlayWindow = None, overlayCalls = [Start],
      subscriptions = [\<lparr>remaining = 0, due = Some 5000, closed = False\<rparr>],
      onWindowsReadySubscription = Some 0, clock = 0, created = 4\<rparr>"

text \<open>The same service after the chat pair was placed at (5, 5) and that position stored.\<close>

definition movedService :: Service where
  "movedService =
     pendingService
       \<lparr>state := (state pendingService)\<lparr>windowProperties :=
           (windowProperties (state pendingService))
             (chat := \<lparr>position = Some \<lparr>pos_x = 5, pos_y = 5\<rparr>, overlayId = None\<rparr>)\<rparr>,
        windows := onWindow chat (setBounds (boundsAt chat \<lparr>pos_x = 5, pos_y = 5\<rparr>)) (windows pendingService),
        previewWindows :=
          onWindow chat (setBounds (boundsAt chat \<lparr>pos_x = 5, pos_y = 5\<rparr>)) (previewWindows pendingService)\<rparr>"

text \<open>A new service whose stored chat position lies on the task bar of \<open>exDisplay\<close>.\<close>

definition staleService :: Service where
  "staleService =
     newService\<lparr>state := defaultState\<lparr>windowProperties :=
        (windowProperties defaultState)
          (chat := \<lparr>position = Some \<lparr>pos_x = 100, pos_y = 1060\<rparr>, overlayId = None\<rparr>)\<rparr>\<rparr>"

text \<open>A new service whose stored chat position is on no display.\<close>

definition lostService :: Service where
  "lostService =
     newService\<lparr>state := defaultState\<lparr>windowProperties :=
        (windowProperties defaultState)
          (chat := \<lparr>position = Some \<lparr>pos_x = 5000, pos_y = 5000\<rparr>, overlayId = None\<rparr>)\<rparr>\<rparr>"

text \<open>The service of \<open>pendingService\<close> torn down and initialised again.\<close>

definition restartedService :: Service where
  "restartedService = snd (initializeOverlay exEnv (destroyOverlay pendingService))"

section \<open>Evaluating the model\<close>

lemmas model_defs =
  newService_def defaultState_def exEnv_def exDisplay_def rejectingEnv_def stoppedEnv_def
  exRecentEvents_def exChat_def exPreviewRecentEvents_def exPreviewChat_def
  pendingService_def movedService_def staleService_def lostService_def restartedService_def
  SET_PREVIEW_ENABLED_def TOGGLE_OVERLAY_def SET_ENABLED_def SET_PREVIEW_MODE_def
  SET_WINDOW_ID_def SET_WINDOW_POSITION_def SET_OPACITY_def
  onWindow_def onEachWindow_def setBounds_def overlayCall_def boundsAt_def falsy_def
  getWindowContainerStartingPosition_def defaultPosition_def onDisplay_def
  determineStartPosition_def resetPosition_key_def resetPosition_def
  showOverlay_def hideOverlay_def leavePreview_def setPreviewMode_def toggleOverlay_def
  setOverlayOpacity_def setPreviewEnabled_def unsubscribe_def destroyOverlay_def
  getPosition_def createWindowOverlays_key_def createWindowOverlays_def
  subscribe_def pipelineNext_def newWindow_def assignCommonWindowOptions_def
  createBrowserWindows_def createPreviewWindows_def configureWindows_key_def
  configureWindows_def initializeOverlay_def setEnabled_def didFinishLoad_def elapse_def
  exclusive_def withinWorkArea_def Let_def

lemma setEnabled_newService: "setEnabled exEnv True newService = (None, pendingService)"
  by (simp add: model_defs fun_eq_iff)

lemma initializeOverlay_newService:
  "initializeOverlay exEnv newService = (None, pendingService\<lparr>state := defaultState\<rparr>)"
  by (simp add: model_defs fun_eq_iff)

section \<open>The flags under the public operations\<close>

lemma flags_hideOverlay [simp]:
  "isEnabled (state (hideOverlay s)) = isEnabled (state s)"
  "previewMode (state (hideOverlay s)) = previewMode (state s)"
  "isShowing (state (hideOverlay s)) = False"
  by (simp_all add: hideOverlay_def TOGGLE_OVERLAY_def overlayCall_def)

lemma flags_showOverlay [simp]:
  "isEnabled (state (showOverlay s)) = isEnabled (state s)"
  "previewMode (state (showOverlay s)) = previewMode (state s)"
  "isShowing (state (showOverlay s)) = True"
  by (simp_all add: showOverlay_def TOGGLE_OVERLAY_def overlayCall_def Let_def)

lemma flags_leavePreview [simp]:
  "isEnabled (state (leavePreview k s)) = isEnabled (state s)"
  "previewMode (state (leavePreview k s)) = previewMode (state s)"
  "isShowing (state (leavePreview k s)) = isShowing (state s)"
  by (simp_all add: leavePreview_def SET_WINDOW_POSITION_def overlayCall_def Let_def
      split: option.splits)

lemma flags_fold_leavePreview [simp]:
  "isEnabled (state (fold leavePreview ks s)) = isEnabled (state s)"
  "previewMode (state (fold leavePreview ks s)) = previewMode (state s)"
  "isShowing (state (fold leavePreview ks s)) = isShowing (state s)"
  by (induction ks arbitrary: s) simp_all

lemma flags_setPreviewMode [simp]:
  "isEnabled (state (setPreviewMode b s)) = isEnabled (state s)"
  "previewMode (state (setPreviewMode b s)) = (if isEnabled (state s) then b else previewMode (state s))"
  "isShowing (state (setPreviewMode b s)) = False"
  by (simp_all add: setPreviewMode_def SET_PREVIEW_MODE_def Let_def)

lemma flags_destroyOverlay [simp]:
  "previewMode (state (destroyOverlay s)) = False"
  "isShowing (state (destroyOverlay s)) = False"
  by (simp_all add: destroyOverlay_def TOGGLE_OVERLAY_def SET_PREVIEW_MODE_def Let_def)

lemma previewMode_toggleOverlay:
  "previewMode (state (toggleOverlay env s)) =
     (if overlayStatus env \<noteq> Running \<or> \<not> isEnabled (state s) then previewMode (state s) else False)"
  by (simp add: toggleOverlay_def Let_def)

text \<open>
  C6. When the status of the native module is not \<^verbatim>\<open>Running\<close>, or the overlay is not
  enabled, \<^verbatim>\<open>toggleOverlay()\<close> returns the service as it was: the whole persisted state,
  the windows and the list of calls made on the native module (so no show and no hide).
\<close>

theorem toggleOverlay_refused:
  "overlayStatus env \<noteq> Running \<or> \<not> isEnabled (state s) \<Longrightarrow> toggleOverlay env s = s"
  by (auto simp: toggleOverlay_def)

theorem toggleOverlay_refused_witness:
  "overlayStatus stoppedEnv = Stopped \<and>
   isEnabled (state pendingService) \<and>
   toggleOverlay stoppedEnv pendingService = pendingService"
  using toggleOverlay_refused [of stoppedEnv pendingService]
  by (simp add: stoppedEnv_def exEnv_def pendingService_def defaultState_def)

text \<open>
  C9. \<^verbatim>\<open>destroyOverlay()\<close> always leaves \<open>previewMode\<close> and \<open>isShowing\<close> false; when the
  overlay is not enabled it changes nothing else: no call on the native module, no
  unsubscription, no window destroyed.
\<close>

theorem destroyOverlay_resets_flags:
  "previewMode (state (destroyOverlay s)) = False \<and>
   isShowing (state (destroyOverlay s)) = False \<and>
   (\<not> isEnabled (state s) \<longrightarrow>
      destroyOverlay s = s\<lparr>state := (state s)\<lparr>previewMode := False, isShowing := False\<rparr>\<rparr>)"
  by (simp add: destroyOverlay_def TOGGLE_OVERLAY_def SET_PREVIEW_MODE_def Let_def)

theorem destroyOverlay_resets_flags_witness:
  "\<not> isEnabled (state (showOverlay newService)) \<and>
   isShowing (state (showOverlay newService)) \<and>
   previewMode (state (destroyOverlay (showOverlay newService))) = False \<and>
   isShowing (state (destroyOverlay (showOverlay newService))) = False \<and>
   overlayCalls (destroyOverlay (showOverlay newService)) = [Show] \<and>
   windows (destroyOverlay (showOverlay newService)) = windows (showOverlay newService) \<and>
   subscriptions (destroyOverlay (showOverlay newService)) = subscriptions (showOverlay newService)"
  using destroyOverlay_resets_flags [of "showOverlay newService"]
  by (simp add: showOverlay_def TOGGLE_OVERLAY_def overlayCall_def newService_def defaultState_def
      onEachWindow_def Let_def)

text \<open>
  C10. While the overlay is not enabled, \<^verbatim>\<open>setPreviewMode(b)\<close> leaves \<open>previewMode\<close> as it
  was for either \<open>b\<close>, and leaves \<open>isShowing\<close> false: it does nothing but hide the live
  overlay when that was showing.
\<close>

theorem setPreviewMode_disabled:
  "\<not> isEnabled (state s) \<Longrightarrow>
     previewMode (state (setPreviewMode b s)) = previewMode (state s) \<and>
     isShowing (state (setPreviewMode b s)) = False \<and>
     setPreviewMode b s = (if isShowing (state s) then hideOverlay s else s)"
  by (simp add: setPreviewMode_def Let_def)

theorem setPreviewMode_disabled_witness:
  "\<not> isEnabled (state (showOverlay newService)) \<and>
   isShowing (state (showOverlay newService)) \<and>
   previewMode (state (setPreviewMode True (showOverlay newService))) = False \<and>
   isShowing (state (setPreviewMode True (showOverlay newService))) = False \<and>
   overlayCalls (setPreviewMode True (showOverlay newService)) = [Show, Hide]"
  using setPreviewMode_disabled [of "showOverlay newService" True]
  by (simp add: showOverlay_def hideOverlay_def TOGGLE_OVERLAY_def overlayCall_def newService_def
      defaultState_def onEachWindow_def Let_def)

text \<open>
  C3, as stated: the two flags are never both set under the public operations, among them
  \<^verbatim>\<open>showOverlay\<close>. That fails: after \<^verbatim>\<open>setEnabled(true)\<close> and \<^verbatim>\<open>setPreviewMode(true)\<close>, a
  call of \<^verbatim>\<open>showOverlay()\<close> sets \<open>isShowing\<close> and leaves \<open>previewMode\<close> set.
\<close>

theorem showOverlay_in_preview_counterexample:
  "setEnabled exEnv True newService = (None, pendingService) \<and>
   exclusive (setPreviewMode True pendingService) \<and>
   previewMode (state (showOverlay (setPreviewMode True pendingService))) \<and>
   isShowing (state (showOverlay (setPreviewMode True pendingService)))"
  by (simp add: setEnabled_newService exclusive_def)
     (simp add: pendingService_def defaultState_def)

text \<open>
  C3, amended: the two flags are not both set after \<^verbatim>\<open>setPreviewMode\<close>, \<^verbatim>\<open>hideOverlay\<close> or
  \<^verbatim>\<open>destroyOverlay\<close>, whatever the state before; \<^verbatim>\<open>toggleOverlay\<close> keeps them exclusive;
  \<^verbatim>\<open>showOverlay\<close> does so when called outside preview mode; and entering preview mode
  while the overlay is showing leaves \<open>isShowing\<close> false.
\<close>

theorem exclusion_preserved:
  "exclusive (setPreviewMode b s) \<and>
   exclusive (hideOverlay s) \<and>
   exclusive (destroyOverlay s) \<and>
   (exclusive s \<longrightarrow> exclusive (toggleOverlay env s)) \<and>
   (\<not> previewMode (state s) \<longrightarrow> exclusive (showOverlay s)) \<and>
   (isShowing (state s) \<longrightarrow> \<not> isShowing (state (setPreviewMode True s)))"
  by (cases "overlayStatus env \<noteq> Running \<or> \<not> isEnabled (state s)")
     (auto simp: exclusive_def previewMode_toggleOverlay toggleOverlay_def)

theorem exclusion_preserved_witness:
  "exclusive (showOverlay pendingService) \<and>
   \<not> previewMode (state pendingService) \<and>
   isShowing (state (showOverlay pendingService)) \<and>
   exclusive (toggleOverlay exEnv (showOverlay pendingService)) \<and>
   exclusive (showOverlay pendingService) \<and>
   \<not> isShowing (state (setPreviewMode True (showOverlay pendingService)))"
  using exclusion_preserved [of True "showOverlay pendingService" exEnv]
        exclusion_preserved [of True pendingService exEnv]
  by (simp add: exclusive_def) (simp add: pendingService_def defaultState_def)

section \<open>Resolving the start position\<close>

lemma find_None_iff_Bex: "(find P xs = None) = (\<not> (\<exists>x\<in>set xs. P x))"
  by (induction xs) auto

lemma determineStartPosition_cases:
  "determineStartPosition env key s =
     (case position (windowProperties (state s) key) of
        Some pos \<Rightarrow>
          if (\<exists>d\<in>set (allDisplays env). onDisplay pos d) then (pos, s)
          else (defaultPosition env key, SET_WINDOW_POSITION key None s)
      | None \<Rightarrow> (defaultPosition env key, SET_WINDOW_POSITION key None s))"
proof (cases "position (windowProperties (state s) key)")
  case None
  then show ?thesis by (simp add: determineStartPosition_def)
next
  case (Some pos)
  show ?thesis
  proof (cases "find (onDisplay pos) (allDisplays env)")
    case None
    then have "\<not> (\<exists>d\<in>set (allDisplays env). onDisplay pos d)"
      by (simp add: find_None_iff_Bex)
    with None Some show ?thesis
      by (simp add: determineStartPosition_def)
  next
    case (Some d)
    then have "find (onDisplay pos) (allDisplays env) \<noteq> None" by simp
    then have "\<exists>d\<in>set (allDisplays env). onDisplay pos d"
      by (simp add: find_None_iff_Bex)
    with Some \<open>position (windowProperties (state s) key) = Some pos\<close> show ?thesis
      by (simp add: determineStartPosition_def)
  qed
qed

lemma SET_WINDOW_POSITION_twice [simp]:
  "SET_WINDOW_POSITION key p (SET_WINDOW_POSITION key q s) = SET_WINDOW_POSITION key p s"
  by (simp add: SET_WINDOW_POSITION_def)

lemma position_SET_WINDOW_POSITION [simp]:
  "position (windowProperties (state (SET_WINDOW_POSITION key p s)) k) =
     (if k = key then p else position (windowProperties (state s) k))"
  by (simp add: SET_WINDOW_POSITION_def)

text \<open>
  C7, as stated: a saved position is accepted exactly when it lies within the work area
  of some display. That fails: on a display of 1920 by 1080 whose work area is 1920 by
  1040, the saved position (100, 1060) is outside the work area and is accepted, the
  stored position kept.
\<close>

theorem determineStartPosition_work_area_counterexample:
  "determineStartPosition exEnv chat staleService = (\<lparr>pos_x = 100, pos_y = 1060\<rparr>, staleService) \<and>
   \<not> withinWorkArea \<lparr>pos_x = 100, pos_y = 1060\<rparr> exDisplay \<and>
   allDisplays exEnv = [exDisplay]"
  by (simp add: determineStartPosition_def staleService_def newService_def defaultState_def
      exEnv_def exDisplay_def onDisplay_def withinWorkArea_def)

text \<open>
  C7, amended: a saved position is accepted, and the service left as it was, exactly when
  it lies strictly inside the bounds rectangle of some attached display. Otherwise, and
  when there is no saved position, the stored position of the key is set to null and the
  default is returned: with \<open>h\<close> the height of the work area of the main window's display,
  \<open>(h/2 + 200, h/2 - 300)\<close> for chat and 600 to the left of it for recent events. Resolving
  again after that gives the same result.
\<close>

theorem determineStartPosition_resolves:
  "determineStartPosition env key s =
     (case position (windowProperties (state s) key) of
        Some pos \<Rightarrow>
          if (\<exists>d\<in>set (allDisplays env).
                r_x (bounds d) < pos_x pos \<and> r_y (bounds d) < pos_y pos \<and>
                pos_x pos < r_x (bounds d) + r_width (bounds d) \<and>
                pos_y pos < r_y (bounds d) + r_height (bounds d))
          then (pos, s)
          else (defaultPosition env key, SET_WINDOW_POSITION key None s)
      | None \<Rightarrow> (defaultPosition env key, SET_WINDOW_POSITION key None s)) \<and>
   position (windowProperties (state (SET_WINDOW_POSITION key None s)) key) = None \<and>
   determineStartPosition env key (snd (determineStartPosition env key s)) =
     determineStartPosition env key s \<and>
   defaultPosition env key =
     \<lparr>pos_x = (if key = recentEvents
               then r_height (workArea (mainWindowDisplay env)) / 2 + 200 - 600
               else r_height (workArea (mainWindowDisplay env)) / 2 + 200),
      pos_y = r_height (workArea (mainWindowDisplay env)) / 2 - 300\<rparr>"
proof -
  have a: "determineStartPosition env key (snd (determineStartPosition env key s)) =
     determineStartPosition env key s"
    by (simp add: determineStartPosition_cases split: option.splits)
  have b: "defaultPosition env key =
     \<lparr>pos_x = (if key = recentEvents
               then r_height (workArea (mainWindowDisplay env)) / 2 + 200 - 600
               else r_height (workArea (mainWindowDisplay env)) / 2 + 200),
      pos_y = r_height (workArea (mainWindowDisplay env)) / 2 - 300\<rparr>"
    by (simp add: defaultPosition_def getWindowContainerStartingPosition_def)
  have c: "\<And>pos. (\<exists>d\<in>set (allDisplays env). onDisplay pos d) =
     (\<exists>d\<in>set (allDisplays env).
                r_x (bounds d) < pos_x pos \<and> r_y (bounds d) < pos_y pos \<and>
                pos_x pos < r_x (bounds d) + r_width (bounds d) \<and>
                pos_y pos < r_y (bounds d) + r_height (bounds d))"
    by (simp add: onDisplay_def Let_def)
  show ?thesis
    using a b by (simp add: determineStartPosition_cases c split: option.splits)
qed

theorem determineStartPosition_resolves_witness:
  "determineStartPosition exEnv chat lostService =
     (\<lparr>pos_x = 720, pos_y = 220\<rparr>, SET_WINDOW_POSITION chat None lostService) \<and>
   determineStartPosition exEnv chat (snd (determineStartPosition exEnv chat lostService)) =
     (\<lparr>pos_x = 720, pos_y = 220\<rparr>, SET_WINDOW_POSITION chat None lostService)"
proof -
  have saved: "position (windowProperties (state lostService) chat) = Some \<lparr>pos_x = 5000, pos_y = 5000\<rparr>"
    by (simp add: lostService_def newService_def defaultState_def)
  have displays: "allDisplays exEnv = [exDisplay]"
    by (simp add: exEnv_def)
  have height: "r_height (workArea (mainWindowDisplay exEnv)) = 1040"
    by (simp add: exEnv_def exDisplay_def)
  from determineStartPosition_resolves [of exEnv chat lostService] saved displays height
  have first: "determineStartPosition exEnv chat lostService =
     (\<lparr>pos_x = 720, pos_y = 220\<rparr>, SET_WINDOW_POSITION chat None lostService)"
    by (simp add: exDisplay_def)
  from determineStartPosition_resolves [of exEnv chat lostService]
  have "determineStartPosition exEnv chat (snd (determineStartPosition exEnv chat lostService)) =
     determineStartPosition exEnv chat lostService"
    by blast
  with first show ?thesis
    by simp
qed

section \<open>Opacity\<close>

subsection \<open>The double product\<close>

lemma roundHalfEven_nonneg: "0 \<le> m \<Longrightarrow> 0 \<le> roundHalfEven m"
  by (simp add: roundHalfEven_def Let_def)

lemma roundHalfEven_le:
  assumes "m \<le> of_int N"
  shows "roundHalfEven m \<le> N"
proof -
  from assms have f: "\<lfloor>m\<rfloor> \<le> N" by (simp add: floor_le_iff)
  show ?thesis
  proof (cases "\<lfloor>m\<rfloor> = N")
    case True
    then have "m - of_int \<lfloor>m\<rfloor> \<le> 0" using assms by simp
    then show ?thesis using True by (simp add: roundHalfEven_def Let_def)
  next
    case False
    with f have "\<lfloor>m\<rfloor> + 1 \<le> N" by simp
    with f show ?thesis by (simp add: roundHalfEven_def Let_def)
  qed
qed

lemma exponentOf_le:
  assumes "0 < a" and "a \<le> 255"
  shows "exponentOf a \<le> 7"
proof (cases "1 \<le> a")
  case True
  have "\<lfloor>a\<rfloor> < 2 ^ nat 8" using assms(2) by (simp add: floor_less_iff)
  then have "bitlen \<lfloor>a\<rfloor> \<le> 8" by (simp add: bitlen_le_iff_power)
  with True show ?thesis by (simp add: exponentOf_def)
next
  case False
  have "0 \<le> bitlen (\<lceil>1 / a\<rceil> - 1)" by (rule bitlen_nonneg)
  with False show ?thesis by (simp add: exponentOf_def)
qed

text \<open>Rounding never leaves an interval whose ends are doubles: here 0 and 255.\<close>

lemma roundDouble_bounded:
  assumes "0 \<le> x" and "x \<le> 255"
  shows "\<exists>r. roundDouble x = Finite r \<and> 0 \<le> r \<and> r \<le> 255"
proof (cases "x = 0")
  case True
  then show ?thesis by (simp add: roundDouble_def)
next
  case False
  with assms have pos: "0 < x" by simp
  have ax: "\<bar>x\<bar> = x" using pos by simp
  define k where "k = max (exponentOf x) (- 1022) - 52"
  define j where "j = nat (- k)"
  have "exponentOf x \<le> 7" using exponentOf_le [of x] pos assms(2) by simp
  then have kneg: "k < 0" by (simp add: k_def)
  then have q: "pow2 k = 1 / 2 ^ j" by (simp add: pow2_def j_def)
  define n where "n = roundHalfEven (x / pow2 k)"
  have m: "x / pow2 k = x * 2 ^ j" using pos q by simp
  have n0: "0 \<le> n" unfolding n_def m using pos by (intro roundHalfEven_nonneg) simp
  have "x * 2 ^ j \<le> of_int (255 * 2 ^ j)" using assms(2) by simp
  then have nle: "n \<le> 255 * 2 ^ j" unfolding n_def m by (rule roundHalfEven_le)
  define r where "r = of_int n * pow2 k"
  have r0: "0 \<le> r" using n0 by (simp add: r_def q)
  have "real_of_int n \<le> 255 * 2 ^ j"
    using nle by (metis of_int_le_iff of_int_mult of_int_numeral of_int_power)
  then have rle: "r \<le> 255" by (simp add: r_def q field_simps)
  have "(255 :: real) < 2 ^ 1024" by simp
  with rle have small: "\<not> 2 ^ 1024 \<le> r" by linarith
  have "roundDouble x = Finite r"
    unfolding roundDouble_def Let_def ax k_def [symmetric] n_def [symmetric] r_def [symmetric]
    using False pos small by simp
  with r0 rle show ?thesis by blast
qed

lemma jsTimes_percentage_bounded:
  assumes "0 \<le> r" and "r \<le> 100"
  shows "\<exists>t. jsTimes (Finite r) literal_2_55 = Finite t \<and> 0 \<le> t \<and> t \<le> 255"
proof -
  have "0 \<le> r * (2871044762448691 / 2 ^ 50)" using assms(1) by simp
  moreover have "r * (2871044762448691 / 2 ^ 50) \<le> 255" using assms(2) by simp
  ultimately show ?thesis
    using roundDouble_bounded [of "r * (2871044762448691 / 2 ^ 50)"]
    by (simp add: literal_2_55_def)
qed

text \<open>Evaluating \<open>roundDouble\<close> at a positive real, step by step.\<close>

lemma roundDouble_positive:
  assumes "0 < x" and "exponentOf x = e"
      and "roundHalfEven (x / pow2 (max e (- 1022) - 52)) = n"
      and "of_int n * pow2 (max e (- 1022) - 52) = r" and "r < 2 ^ 1024"
  shows "roundDouble x = Finite r"
  using assms by (simp add: roundDouble_def Let_def)

lemma literal_2_55_nearest: "roundDouble 2.55 = literal_2_55"
  unfolding literal_2_55_def
proof (rule roundDouble_positive [where e = 1 and n = 5742089524897382])
  show "(0 :: real) < 2.55" by simp
  show "exponentOf 2.55 = 1" by (simp add: exponentOf_def compute_bitlen)
  show "roundHalfEven (2.55 / pow2 (max 1 (- 1022) - 52)) = 5742089524897382"
    by (simp add: roundHalfEven_def pow2_def Let_def)
  show "real_of_int 5742089524897382 * pow2 (max 1 (- 1022) - 52) = 2871044762448691 / 2 ^ 50"
    by (simp add: pow2_def)
  show "(2871044762448691 / 2 ^ 50 :: real) < 2 ^ 1024" by simp
qed

lemma jsTimes_50: "jsTimes (Finite 50) literal_2_55 = Finite (8972014882652159 / 2 ^ 46)"
  unfolding literal_2_55_def jsTimes.simps
proof (rule roundDouble_positive [where e = 6 and n = 8972014882652159])
  show "(0 :: real) < 50 * (2871044762448691 / 2 ^ 50)" by simp
  show "exponentOf (50 * (2871044762448691 / 2 ^ 50)) = 6"
    by (simp add: exponentOf_def compute_bitlen)
  show "roundHalfEven (50 * (2871044762448691 / 2 ^ 50) / pow2 (max 6 (- 1022) - 52)) =
          8972014882652159"
    by (simp add: roundHalfEven_def pow2_def Let_def)
  show "real_of_int 8972014882652159 * pow2 (max 6 (- 1022) - 52) = 8972014882652159 / 2 ^ 46"
    by (simp add: pow2_def)
  show "(8972014882652159 / 2 ^ 46 :: real) < 2 ^ 1024" by simp
qed

lemma jsTimes_100: "jsTimes (Finite 100) literal_2_55 = Finite (8972014882652159 / 2 ^ 45)"
  unfolding literal_2_55_def jsTimes.simps
proof (rule roundDouble_positive [where e = 7 and n = 8972014882652159])
  show "(0 :: real) < 100 * (2871044762448691 / 2 ^ 50)" by simp
  show "exponentOf (100 * (2871044762448691 / 2 ^ 50)) = 7"
    by (simp add: exponentOf_def compute_bitlen)
  show "roundHalfEven (100 * (2871044762448691 / 2 ^ 50) / pow2 (max 7 (- 1022) - 52)) =
          8972014882652159"
    by (simp add: roundHalfEven_def pow2_def Let_def)
  show "real_of_int 8972014882652159 * pow2 (max 7 (- 1022) - 52) = 8972014882652159 / 2 ^ 45"
    by (simp add: pow2_def)
  show "(8972014882652159 / 2 ^ 45 :: real) < 2 ^ 1024" by simp
qed

lemma jsTimes_150: "jsTimes (Finite 150) literal_2_55 = Finite 382.5"
  unfolding literal_2_55_def jsTimes.simps
proof (rule roundDouble_positive [where e = 8 and n = 6729011161989120])
  show "(0 :: real) < 150 * (2871044762448691 / 2 ^ 50)" by simp
  show "exponentOf (150 * (2871044762448691 / 2 ^ 50)) = 8"
    by (simp add: exponentOf_def compute_bitlen)
  show "roundHalfEven (150 * (2871044762448691 / 2 ^ 50) / pow2 (max 8 (- 1022) - 52)) =
          6729011161989120"
    by (simp add: roundHalfEven_def pow2_def Let_def)
  show "real_of_int 6729011161989120 * pow2 (max 8 (- 1022) - 52) = 382.5"
    by (simp add: pow2_def)
  show "(382.5 :: real) < 2 ^ 1024" by simp
qed

subsection \<open>Setting the opacity\<close>

lemma fold_SetTransparency:
  "fold (\<lambda>key s'. overlayCall
            (SetTransparency (overlayId (windowProperties (state s') key)) v) s') ks s =
   s\<lparr>overlayCalls := overlayCalls s @
        map (\<lambda>key. SetTransparency (overlayId (windowProperties (state s) key)) v) ks\<rparr>"
  by (induction ks arbitrary: s) (simp_all add: overlayCall_def)

lemma setOverlayOpacity_eq:
  "setOverlayOpacity p s =
     s\<lparr>state := (state s)\<lparr>opacity := p\<rparr>,
       overlayCalls := overlayCalls s @
        (if isEnabled (state s)
         then map (\<lambda>key. SetTransparency (overlayId (windowProperties (state s) key))
                          (jsTimes p literal_2_55))
                (map fst (windows s))
         else [])\<rparr>"
  by (simp add: setOverlayOpacity_def Let_def fold_SetTransparency SET_OPACITY_def)

lemma forEach_createWindowOverlays_transparency:
  "forEach ks (createWindowOverlays_key env) s = (e, s') \<Longrightarrow>
     opacity (state s') = opacity (state s) \<and>
     (\<forall>i v. SetTransparency i v \<in> set (overlayCalls s') \<longrightarrow>
        SetTransparency i v \<in> set (overlayCalls s) \<or> v = jsTimes (opacity (state s)) literal_2_55)"
proof (induction ks arbitrary: s)
  case Nil
  then show ?case by simp
next
  case (Cons key ks)
  obtain e1 s1 where step: "createWindowOverlays_key env key s = (e1, s1)"
    by (cases "createWindowOverlays_key env key s")
  then have one: "opacity (state s1) = opacity (state s) \<and>
     (\<forall>i v. SetTransparency i v \<in> set (overlayCalls s1) \<longrightarrow>
        SetTransparency i v \<in> set (overlayCalls s) \<or> v = jsTimes (opacity (state s)) literal_2_55)"
    by (auto simp: createWindowOverlays_key_def Let_def overlayCall_def SET_WINDOW_ID_def
        split: option.splits if_splits)
  show ?case
  proof (cases e1)
    case (Some err)
    with Cons.prems step have "s' = s1" by simp
    with one show ?thesis by simp
  next
    case None
    with Cons.prems step have "forEach ks (createWindowOverlays_key env) s1 = (e, s')" by simp
    from Cons.IH [OF this] one show ?thesis by auto
  qed
qed

lemma createWindowOverlays_transparency_bounded:
  assumes "opacity (state s) = Finite r" and "0 \<le> r" and "r \<le> 100"
  shows "\<forall>i v. SetTransparency i v \<in> set (overlayCalls (snd (createWindowOverlays env s))) \<longrightarrow>
           SetTransparency i v \<in> set (overlayCalls s) \<or> (\<exists>t. v = Finite t \<and> 0 \<le> t \<and> t \<le> 255)"
proof -
  obtain e s' where run: "createWindowOverlays env s = (e, s')"
    by (cases "createWindowOverlays env s")
  then have "forEach (map fst (windows s)) (createWindowOverlays_key env) s = (e, s')"
    by (simp add: createWindowOverlays_def)
  from forEach_createWindowOverlays_transparency [OF this] assms(1)
  have "\<forall>i v. SetTransparency i v \<in> set (overlayCalls s') \<longrightarrow>
        SetTransparency i v \<in> set (overlayCalls s) \<or> v = jsTimes (Finite r) literal_2_55"
    by simp
  with jsTimes_percentage_bounded [OF assms(2,3)]
  have "\<forall>i v. SetTransparency i v \<in> set (overlayCalls s') \<longrightarrow>
        SetTransparency i v \<in> set (overlayCalls s) \<or> (\<exists>t. v = Finite t \<and> 0 \<le> t \<and> t \<le> 255)"
    by blast
  with run show ?thesis by simp
qed

text \<open>
  C4, as stated: with the overlay enabled, \<^verbatim>\<open>setOverlayOpacity(50)\<close> calls the native module
  with 127 or 128 for every registered surface and makes no call for a surface whose id
  is not set. That fails: before registration, with both ids null, it calls the native
  module with a null id, and the value it passes is the double product of 50 and 2.55,
  a number strictly between 127 and 128 (printed as 127.49999999999999).
\<close>

theorem setOverlayOpacity_unregistered_counterexample:
  "overlayId (windowProperties (state pendingService) chat) = None \<and>
   isEnabled (state pendingService) \<and>
   SetTransparency None (Finite (8972014882652159 / 2 ^ 46)) \<in>
     set (overlayCalls (setOverlayOpacity (Finite 50) pendingService)) \<and>
   (127 :: real) < 8972014882652159 / 2 ^ 46 \<and> (8972014882652159 / 2 ^ 46 :: real) < 128"
  by (simp add: setOverlayOpacity_eq jsTimes_50) (simp add: pendingService_def defaultState_def)

text \<open>
  C4, amended: \<^verbatim>\<open>setOverlayOpacity(p)\<close> stores \<open>p\<close> as the opacity and changes nothing else
  in the persisted state, nor anything in the service but the calls on the native
  module. Enabled, it makes one transparency call for every key of \<^verbatim>\<open>this.windows\<close>, in
  key order, with the id stored for the key, null included, and the double product of
  \<open>p\<close> and 2.55, not rounded to an integer; not enabled, it makes no call.
\<close>

theorem setOverlayOpacity_forwards:
  "setOverlayOpacity p s =
     s\<lparr>state := (state s)\<lparr>opacity := p\<rparr>,
       overlayCalls := overlayCalls s @
        (if isEnabled (state s)
         then map (\<lambda>key. SetTransparency (overlayId (windowProperties (state s) key))
                          (jsTimes p literal_2_55))
                (map fst (windows s))
         else [])\<rparr> \<and>
   state (setOverlayOpacity p s) = (state s)\<lparr>opacity := p\<rparr> \<and>
   opacity (state (setOverlayOpacity p s)) = p"
  by (simp add: setOverlayOpacity_eq)

theorem setOverlayOpacity_forwards_witness:
  "opacity (state (setOverlayOpacity (Finite 50) (elapse exEnv 5000 pendingService))) = Finite 50 \<and>
   overlayCalls (setOverlayOpacity (Finite 50) (elapse exEnv 5000 pendingService)) =
     overlayCalls (elapse exEnv 5000 pendingService) @
       [SetTransparency (Some 1) (Finite (8972014882652159 / 2 ^ 46)),
        SetTransparency (Some 2) (Finite (8972014882652159 / 2 ^ 46))] \<and>
   overlayCalls (setOverlayOpacity (Finite 50) newService) = [] \<and>
   opacity (state (setOverlayOpacity NaN newService)) = NaN"
  using setOverlayOpacity_forwards [of "Finite 50" "elapse exEnv 5000 pendingService"]
        setOverlayOpacity_forwards [of "Finite 50" newService]
        setOverlayOpacity_forwards [of NaN newService]
  by (simp add: jsTimes_50) (simp add: model_defs upt_rec)

text \<open>
  C5, as stated: \<^verbatim>\<open>setOverlayOpacity\<close> establishes an opacity in [0, 100] and transparency
  values in [0, 255] for any argument. That fails for 150, which is stored as it is and
  sent on as 382.5.
\<close>

theorem setOverlayOpacity_unclamped_counterexample:
  "opacity (state (setOverlayOpacity (Finite 150) pendingService)) = Finite 150 \<and>
   \<not> (150 \<le> (100 :: real)) \<and>
   SetTransparency None (Finite (150 * 2.55)) \<in>
     set (overlayCalls (setOverlayOpacity (Finite 150) pendingService)) \<and>
   \<not> (150 * 2.55 \<le> (255 :: real))"
  by (simp add: setOverlayOpacity_eq jsTimes_150) (simp add: pendingService_def defaultState_def)

text \<open>
  C5, amended: nothing is clamped. For an argument in [0, 100], \<^verbatim>\<open>setOverlayOpacity\<close> leaves
  the opacity in [0, 100] and every transparency value it sends is in [0, 255]; and while
  the stored opacity is in [0, 100], every transparency value that
  \<^verbatim>\<open>createWindowOverlays\<close> sends is in [0, 255].
\<close>

theorem opacity_bounds_for_percentages:
  "(0 \<le> r \<and> r \<le> 100 \<longrightarrow>
     opacity (state (setOverlayOpacity (Finite r) s)) = Finite r \<and>
     (\<forall>i v. SetTransparency i v \<in>
               set (drop (length (overlayCalls s)) (overlayCalls (setOverlayOpacity (Finite r) s))) \<longrightarrow>
             (\<exists>t. v = Finite t \<and> 0 \<le> t \<and> t \<le> 255)) \<and>
     (\<forall>i v. SetTransparency i v \<in>
               set (overlayCalls (snd (createWindowOverlays env (setOverlayOpacity (Finite r) s)))) \<longrightarrow>
             SetTransparency i v \<in> set (overlayCalls (setOverlayOpacity (Finite r) s)) \<or>
             (\<exists>t. v = Finite t \<and> 0 \<le> t \<and> t \<le> 255))) \<and>
   (opacity (state s) = Finite r \<and> 0 \<le> r \<and> r \<le> 100 \<longrightarrow>
     (\<forall>i v. SetTransparency i v \<in> set (overlayCalls (snd (createWindowOverlays env s))) \<longrightarrow>
             SetTransparency i v \<in> set (overlayCalls s) \<or>
             (\<exists>t. v = Finite t \<and> 0 \<le> t \<and> t \<le> 255)))"
proof (intro conjI impI)
  assume p: "0 \<le> r \<and> r \<le> 100"
  let ?s = "setOverlayOpacity (Finite r) s"
  show op: "opacity (state ?s) = Finite r"
    by (simp add: setOverlayOpacity_eq)
  from p jsTimes_percentage_bounded [of r]
  obtain t where t: "jsTimes (Finite r) literal_2_55 = Finite t" "0 \<le> t" "t \<le> 255"
    by blast
  then show "\<forall>i v. SetTransparency i v \<in> set (drop (length (overlayCalls s)) (overlayCalls ?s)) \<longrightarrow>
             (\<exists>t. v = Finite t \<and> 0 \<le> t \<and> t \<le> 255)"
    by (auto simp: setOverlayOpacity_eq)
  from p op show "\<forall>i v. SetTransparency i v \<in>
               set (overlayCalls (snd (createWindowOverlays env ?s))) \<longrightarrow>
             SetTransparency i v \<in> set (overlayCalls ?s) \<or>
             (\<exists>t. v = Finite t \<and> 0 \<le> t \<and> t \<le> 255)"
    by (intro createWindowOverlays_transparency_bounded [of ?s r]) simp_all
next
  assume "opacity (state s) = Finite r \<and> 0 \<le> r \<and> r \<le> 100"
  then show "\<forall>i v. SetTransparency i v \<in> set (overlayCalls (snd (createWindowOverlays env s))) \<longrightarrow>
             SetTransparency i v \<in> set (overlayCalls s) \<or>
             (\<exists>t. v = Finite t \<and> 0 \<le> t \<and> t \<le> 255)"
    by (intro createWindowOverlays_transparency_bounded [of s r]) simp_all
qed

theorem opacity_bounds_for_percentages_witness:
  "(0 :: real) \<le> 50 \<and> (50 :: real) \<le> 100 \<and>
   opacity (state (setOverlayOpacity (Finite 50) pendingService)) = Finite 50 \<and>
   drop (length (overlayCalls pendingService))
     (overlayCalls (setOverlayOpacity (Finite 50) pendingService)) =
     [SetTransparency None (Finite (8972014882652159 / 2 ^ 46)),
      SetTransparency None (Finite (8972014882652159 / 2 ^ 46))] \<and>
   (0 :: real) \<le> 8972014882652159 / 2 ^ 46 \<and> (8972014882652159 / 2 ^ 46 :: real) \<le> 255 \<and>
   opacity (state pendingService) = Finite 100 \<and>
   filter (\<lambda>c. \<not> isAddHWND c) (overlayCalls (snd (createWindowOverlays exEnv pendingService))) =
     [Start, SetPosition (Some 1) 120 220 600 300,
      SetTransparency (Some 1) (Finite (8972014882652159 / 2 ^ 45)),
      SetPosition (Some 2) 720 220 300 600,
      SetTransparency (Some 2) (Finite (8972014882652159 / 2 ^ 45))] \<and>
   (8972014882652159 / 2 ^ 45 :: real) \<le> 255"
  using opacity_bounds_for_percentages [of 50 pendingService exEnv]
        opacity_bounds_for_percentages [of 100 pendingService exEnv]
  by (simp add: setOverlayOpacity_eq jsTimes_50) (simp add: model_defs jsTimes_100)

section \<open>Resetting the positions\<close>

lemma map_of_onWindow_other:
  "k \<noteq> key \<Longrightarrow> map_of (onWindow key f ws) k = map_of ws k"
  by (induction ws) (auto simp: onWindow_def)

lemma resetPosition_key_frame:
  assumes "resetPosition_key env key s = (e, s')"
  shows "overlayId (windowProperties (state s') k) = overlayId (windowProperties (state s) k)"
    and "falsy (overlayId (windowProperties (state s) key)) \<Longrightarrow> s' = s"
    and "k \<noteq> key \<Longrightarrow> windowProperties (state s') k = windowProperties (state s) k"
    and "k \<noteq> key \<Longrightarrow> map_of (windows s') k = map_of (windows s) k"
    and "k \<noteq> key \<Longrightarrow> map_of (previewWindows s') k = map_of (previewWindows s) k"
    and "set (overlayCalls s') \<subseteq> set (overlayCalls s) \<union>
           {c. \<exists>x y w h. \<not> falsy (overlayId (windowProperties (state s) key)) \<and>
                 c = SetPosition (overlayId (windowProperties (state s) key)) x y w h}"
  using assms
  by (auto simp: resetPosition_key_def Let_def SET_WINDOW_POSITION_def overlayCall_def
      map_of_onWindow_other split: if_splits option.splits)

lemma forEach_resetPosition_skips:
  assumes "forEach ks (resetPosition_key env) s = (e, s')"
      and "falsy (overlayId (windowProperties (state s) k))"
  shows "windowProperties (state s') k = windowProperties (state s) k \<and>
         map_of (windows s') k = map_of (windows s) k \<and>
         map_of (previewWindows s') k = map_of (previewWindows s) k \<and>
         (\<forall>j. overlayId (windowProperties (state s') j) = overlayId (windowProperties (state s) j)) \<and>
         set (overlayCalls s') \<subseteq> set (overlayCalls s) \<union>
           {c. \<exists>k' x y w h. k' \<noteq> k \<and> \<not> falsy (overlayId (windowProperties (state s) k')) \<and>
                 c = SetPosition (overlayId (windowProperties (state s) k')) x y w h}"
  using assms
proof (induction ks arbitrary: s)
  case Nil
  then show ?case by auto
next
  case (Cons key ks)
  obtain e1 s1 where step: "resetPosition_key env key s = (e1, s1)"
    by (cases "resetPosition_key env key s")
  have ids: "\<And>j. overlayId (windowProperties (state s1) j) = overlayId (windowProperties (state s) j)"
    using resetPosition_key_frame(1) [OF step] .
  have one: "windowProperties (state s1) k = windowProperties (state s) k \<and>
         map_of (windows s1) k = map_of (windows s) k \<and>
         map_of (previewWindows s1) k = map_of (previewWindows s) k \<and>
         set (overlayCalls s1) \<subseteq> set (overlayCalls s) \<union>
           {c. \<exists>k' x y w h. k' \<noteq> k \<and> \<not> falsy (overlayId (windowProperties (state s) k')) \<and>
                 c = SetPosition (overlayId (windowProperties (state s) k')) x y w h}"
  proof (cases "k = key")
    case True
    with Cons.prems(2) resetPosition_key_frame(2) [OF step] have "s1 = s" by simp
    then show ?thesis by auto
  next
    case False
    have "set (overlayCalls s1) \<subseteq> set (overlayCalls s) \<union>
           {c. \<exists>k' x y w h. k' \<noteq> k \<and> \<not> falsy (overlayId (windowProperties (state s) k')) \<and>
                 c = SetPosition (overlayId (windowProperties (state s) k')) x y w h}"
    proof
      fix c assume "c \<in> set (overlayCalls s1)"
      with resetPosition_key_frame(6) [OF step]
      have "c \<in> set (overlayCalls s) \<or>
            (\<exists>x y w h. \<not> falsy (overlayId (windowProperties (state s) key)) \<and>
                 c = SetPosition (overlayId (windowProperties (state s) key)) x y w h)"
        by auto
      with False show "c \<in> set (overlayCalls s) \<union>
           {c. \<exists>k' x y w h. k' \<noteq> k \<and> \<not> falsy (overlayId (windowProperties (state s) k')) \<and>
                 c = SetPosition (overlayId (windowProperties (state s) k')) x y w h}"
        by auto
    qed
    with False resetPosition_key_frame(3,4,5) [OF step, of k] show ?thesis by simp
  qed
  show ?case
  proof (cases e1)
    case (Some err)
    with Cons.prems(1) step have "s' = s1" by simp
    with one ids show ?thesis by simp
  next
    case None
    with Cons.prems(1) step have rest: "forEach ks (resetPosition_key env) s1 = (e, s')" by simp
    have "falsy (overlayId (windowProperties (state s1) k))"
      using Cons.prems(2) ids by simp
    from Cons.IH [OF rest this] one ids show ?thesis
      by (simp add: subset_iff) blast
  qed
qed

text \<open>
  C1, as stated: for a key whose stored surface id is null, \<^verbatim>\<open>resetPosition()\<close> makes no
  geometry call but still clears the stored position and sets the default bounds on
  both windows of the pair. That fails: with no surface registered and the chat pair
  placed at (5, 5), the call changes nothing at all.
\<close>

theorem resetPosition_unregistered_counterexample:
  "overlayId (windowProperties (state movedService) chat) = None \<and>
   resetPosition exEnv movedService = (None, movedService) \<and>
   position (windowProperties (state movedService) chat) = Some \<lparr>pos_x = 5, pos_y = 5\<rparr> \<and>
   map (winBounds \<circ> snd) (windows movedService) =
     [\<lparr>r_x = 120, r_y = 220, r_width = 600, r_height = 300\<rparr>,
      \<lparr>r_x = 5, r_y = 5, r_width = 300, r_height = 600\<rparr>] \<and>
   boundsAt chat (defaultPosition exEnv chat) =
     \<lparr>r_x = 720, r_y = 220, r_width = 300, r_height = 600\<rparr>"
  by (simp add: model_defs)

text \<open>
  C1, amended: a key whose stored surface id is null (or 0) is skipped by
  \<^verbatim>\<open>resetPosition()\<close> altogether: its stored properties and both windows of its pair are
  left as they were, and every call the operation adds is a geometry call carrying the
  non-null, non-zero id of another key.
\<close>

theorem resetPosition_skips_unregistered:
  assumes "falsy (overlayId (windowProperties (state s) k))"
  shows "windowProperties (state (snd (resetPosition env s))) k = windowProperties (state s) k \<and>
         map_of (windows (snd (resetPosition env s))) k = map_of (windows s) k \<and>
         map_of (previewWindows (snd (resetPosition env s))) k = map_of (previewWindows s) k \<and>
         set (overlayCalls (snd (resetPosition env s))) \<subseteq> set (overlayCalls s) \<union>
           {c. \<exists>k' x y w h. k' \<noteq> k \<and> \<not> falsy (overlayId (windowProperties (state s) k')) \<and>
                 c = SetPosition (overlayId (windowProperties (state s) k')) x y w h}"
proof -
  obtain e s' where run: "forEach (map fst (windows s)) (resetPosition_key env) s = (e, s')"
    by (cases "forEach (map fst (windows s)) (resetPosition_key env) s")
  from forEach_resetPosition_skips [OF run assms] run show ?thesis
    by (simp add: resetPosition_def)
qed

theorem resetPosition_skips_unregistered_witness:
  "falsy (overlayId (windowProperties (state (snd (createWindowOverlays rejectingEnv movedService))) chat)) \<and>
   \<not> falsy (overlayId (windowProperties (state (snd (createWindowOverlays rejectingEnv movedService))) recentEvents)) \<and>
   position (windowProperties
      (state (snd (resetPosition exEnv (snd (createWindowOverlays rejectingEnv movedService))))) chat) =
     Some \<lparr>pos_x = 5, pos_y = 5\<rparr> \<and>
   map_of (windows (snd (resetPosition exEnv (snd (createWindowOverlays rejectingEnv movedService))))) chat =
     map_of (windows movedService) chat \<and>
   overlayCalls (snd (resetPosition exEnv (snd (createWindowOverlays rejectingEnv movedService)))) =
     overlayCalls (snd (createWindowOverlays rejectingEnv movedService)) @
       [SetPosition (Some 7) 120 220 600 300]"
  using resetPosition_skips_unregistered
          [of "snd (createWindowOverlays rejectingEnv movedService)" chat exEnv]
  by (simp add: model_defs)

section \<open>Registration\<close>

lemma handle_map_of_onWindow:
  "map_option handle (map_of (onWindow key (\<lambda>w. w\<lparr>paintsTo := a, frameRate := b\<rparr>) ws) k) =
   map_option handle (map_of ws k)"
  by (induction ws) (auto simp: onWindow_def split: if_splits)

lemma createWindowOverlays_key_ok:
  assumes "map_option handle (map_of (windows s) key) = Some h"
      and "addHWND env h \<noteq> Some (- 1)" and "addHWND env h \<noteq> None"
  shows "\<exists>s'. createWindowOverlays_key env key s = (None, s') \<and>
           (\<forall>k. map_option handle (map_of (windows s') k) = map_option handle (map_of (windows s) k)) \<and>
           filter isAddHWND (overlayCalls s') = filter isAddHWND (overlayCalls s) @ [AddHWND h] \<and>
           (\<forall>k. overlayId (windowProperties (state s') k) =
                  (if k = key then addHWND env h else overlayId (windowProperties (state s) k)))"
  using assms
  by (auto simp: createWindowOverlays_key_def Let_def overlayCall_def SET_WINDOW_ID_def
      handle_map_of_onWindow split: option.splits)

lemma createWindowOverlays_key_fails:
  assumes "map_option handle (map_of (windows s) key) = Some h"
      and "addHWND env h = Some (- 1) \<or> addHWND env h = None"
  shows "\<exists>e s'. createWindowOverlays_key env key s = (Some e, s') \<and>
           (e = TypeError \<or> e = Error ''Error creating overlay'') \<and>
           filter isAddHWND (overlayCalls s') = filter isAddHWND (overlayCalls s) @ [AddHWND h] \<and>
           state s' = state s"
  using assms
  by (auto simp: createWindowOverlays_key_def Let_def overlayCall_def split: option.splits)

lemma forEach_createWindowOverlays_fails:
  assumes "\<forall>(k, w)\<in>set pre. map_option handle (map_of (windows s) k) = Some (handle w) \<and>
             addHWND env (handle w) \<noteq> Some (- 1) \<and> addHWND env (handle w) \<noteq> None"
      and "map_option handle (map_of (windows s) key) = Some hk"
      and "addHWND env hk = Some (- 1) \<or> addHWND env hk = None"
      and "distinct (map fst pre)"
  shows "\<exists>e s'. forEach (map fst pre @ key # post) (createWindowOverlays_key env) s = (Some e, s') \<and>
           (e = TypeError \<or> e = Error ''Error creating overlay'') \<and>
           filter isAddHWND (overlayCalls s') =
             filter isAddHWND (overlayCalls s) @ map (\<lambda>(k, w). AddHWND (handle w)) pre @ [AddHWND hk] \<and>
           (\<forall>k. k \<notin> fst ` set pre \<longrightarrow>
                overlayId (windowProperties (state s') k) = overlayId (windowProperties (state s) k)) \<and>
           (\<forall>(k, w)\<in>set pre. overlayId (windowProperties (state s') k) = addHWND env (handle w))"
  using assms
proof (induction pre arbitrary: s)
  case Nil
  from createWindowOverlays_key_fails [OF Nil.prems(2,3)] show ?case
    by auto
next
  case (Cons kw pre)
  obtain k w where kw: "kw = (k, w)" by (cases kw)
  from Cons.prems(1) kw have
    hd: "map_option handle (map_of (windows s) k) = Some (handle w)"
        "addHWND env (handle w) \<noteq> Some (- 1)" "addHWND env (handle w) \<noteq> None"
    by auto
  from createWindowOverlays_key_ok [OF hd] obtain s1 where
    step: "createWindowOverlays_key env k s = (None, s1)" and
    hs: "\<And>j. map_option handle (map_of (windows s1) j) = map_option handle (map_of (windows s) j)" and
    calls: "filter isAddHWND (overlayCalls s1) = filter isAddHWND (overlayCalls s) @ [AddHWND (handle w)]" and
    ids: "\<And>j. overlayId (windowProperties (state s1) j) =
                  (if j = k then addHWND env (handle w) else overlayId (windowProperties (state s) j))"
    by blast
  have p1: "\<forall>(k, w)\<in>set pre. map_option handle (map_of (windows s1) k) = Some (handle w) \<and>
             addHWND env (handle w) \<noteq> Some (- 1) \<and> addHWND env (handle w) \<noteq> None"
    using Cons.prems(1) hs by auto
  have p2: "map_option handle (map_of (windows s1) key) = Some hk"
    using Cons.prems(2) hs by simp
  have p4: "distinct (map fst pre)" and knot: "k \<notin> fst ` set pre"
    using Cons.prems(4) kw by auto
  from Cons.IH [OF p1 p2 Cons.prems(3) p4] obtain e s' where
    r: "forEach (map fst pre @ key # post) (createWindowOverlays_key env) s1 = (Some e, s')" and
    e: "e = TypeError \<or> e = Error ''Error creating overlay''" and
    c: "filter isAddHWND (overlayCalls s') =
          filter isAddHWND (overlayCalls s1) @ map (\<lambda>(k, w). AddHWND (handle w)) pre @ [AddHWND hk]" and
    u: "\<And>j. j \<notin> fst ` set pre \<Longrightarrow>
          overlayId (windowProperties (state s') j) = overlayId (windowProperties (state s1) j)" and
    a: "\<forall>(k, w)\<in>set pre. overlayId (windowProperties (state s') k) = addHWND env (handle w)"
    by blast
  have "forEach (map fst (kw # pre) @ key # post) (createWindowOverlays_key env) s = (Some e, s')"
    using step r kw by simp
  moreover have "filter isAddHWND (overlayCalls s') =
      filter isAddHWND (overlayCalls s) @ map (\<lambda>(k, w). AddHWND (handle w)) (kw # pre) @ [AddHWND hk]"
    using c calls kw by simp
  moreover have "\<forall>j. j \<notin> fst ` set (kw # pre) \<longrightarrow>
      overlayId (windowProperties (state s') j) = overlayId (windowProperties (state s) j)"
    using u ids kw by auto
  moreover have "\<forall>(k, w)\<in>set (kw # pre). overlayId (windowProperties (state s') k) = addHWND env (handle w)"
    using a u [OF knot] ids kw by auto
  ultimately show ?case using e by blast
qed

text \<open>
  C8. When the native module answers -1 or null for a window during
  \<^verbatim>\<open>createWindowOverlays()\<close>, an exception leaves the function (the \<^verbatim>\<open>Error\<close> of the
  \<^verbatim>\<open>throw\<close>, or a \<^verbatim>\<open>TypeError\<close> from the \<^verbatim>\<open>hide()\<close> before it while \<^verbatim>\<open>overlayWindow\<close> is
  undefined); the registration calls of the pass are those for the windows up to and
  including that one, and the stored id of that window and of every later one is
  unchanged.
\<close>

theorem createWindowOverlays_invalid_id:
  assumes "windows s = pre @ (key, win) # post"
      and "distinct (map fst (windows s))"
      and "\<forall>(k, w)\<in>set pre. addHWND env (handle w) \<noteq> Some (- 1) \<and> addHWND env (handle w) \<noteq> None"
      and "addHWND env (handle win) = Some (- 1) \<or> addHWND env (handle win) = None"
  shows "(fst (createWindowOverlays env s) = Some TypeError \<or>
          fst (createWindowOverlays env s) = Some (Error ''Error creating overlay'')) \<and>
         filter isAddHWND (overlayCalls (snd (createWindowOverlays env s))) =
           filter isAddHWND (overlayCalls s) @
             map (\<lambda>(k, w). AddHWND (handle w)) (pre @ [(key, win)]) \<and>
         (\<forall>(k, w)\<in>set ((key, win) # post).
            overlayId (windowProperties (state (snd (createWindowOverlays env s))) k) =
              overlayId (windowProperties (state s) k))"
proof -
  have d: "distinct (map fst pre)" and sep: "fst ` set pre \<inter> fst ` set ((key, win) # post) = {}"
    using assms(1,2) by auto
  have look: "\<And>k w. (k, w) \<in> set (windows s) \<Longrightarrow> map_of (windows s) k = Some w"
    using assms(2) by simp
  have a1: "\<forall>(k, w)\<in>set pre. map_option handle (map_of (windows s) k) = Some (handle w) \<and>
             addHWND env (handle w) \<noteq> Some (- 1) \<and> addHWND env (handle w) \<noteq> None"
    using assms(1,3) look by auto
  have a2: "map_option handle (map_of (windows s) key) = Some (handle win)"
    using assms(1) look [of key win] by simp
  from forEach_createWindowOverlays_fails [OF a1 a2 assms(4) d, of "map fst post"] obtain e s' where
    r: "forEach (map fst pre @ key # map fst post) (createWindowOverlays_key env) s = (Some e, s')" and
    e: "e = TypeError \<or> e = Error ''Error creating overlay''" and
    c: "filter isAddHWND (overlayCalls s') =
          filter isAddHWND (overlayCalls s) @ map (\<lambda>(k, w). AddHWND (handle w)) pre @ [AddHWND (handle win)]" and
    u: "\<And>j. j \<notin> fst ` set pre \<Longrightarrow>
          overlayId (windowProperties (state s') j) = overlayId (windowProperties (state s) j)"
    by blast
  have run: "createWindowOverlays env s = (Some e, s')"
    using r assms(1) by (simp add: createWindowOverlays_def)
  have "\<forall>(k, w)\<in>set ((key, win) # post).
            overlayId (windowProperties (state s') k) = overlayId (windowProperties (state s) k)"
  proof (clarify)
    fix k w assume "(k, w) \<in> set ((key, win) # post)"
    then have "k \<in> fst ` set ((key, win) # post)" by force
    with sep have "k \<notin> fst ` set pre" by blast
    then show "overlayId (windowProperties (state s') k) = overlayId (windowProperties (state s) k)"
      by (rule u)
  qed
  with run e c show ?thesis by simp
qed

theorem createWindowOverlays_invalid_id_witness:
  "windows pendingService = [(recentEvents, exRecentEvents)] @ (chat, exChat) # [] \<and>
   distinct (map fst (windows pendingService)) \<and>
   addHWND rejectingEnv (handle exRecentEvents) = Some 7 \<and>
   addHWND rejectingEnv (handle exChat) = Some (- 1) \<and>
   fst (createWindowOverlays rejectingEnv pendingService) = Some TypeError \<and>
   filter isAddHWND (overlayCalls (snd (createWindowOverlays rejectingEnv pendingService))) =
     [AddHWND 0, AddHWND 1] \<and>
   overlayId (windowProperties (state (snd (createWindowOverlays rejectingEnv pendingService))) chat) = None"
  using createWindowOverlays_invalid_id
          [of pendingService "[(recentEvents, exRecentEvents)]" chat exChat "[]" rejectingEnv]
  by (simp add: model_defs)

section \<open>The readiness pipeline\<close>

text \<open>
  C2: no surface is registered before every source window has signalled that its content
  is loaded and five seconds have passed since the last signal. On the first
  \<^verbatim>\<open>initializeOverlay()\<close> of a new service \<^verbatim>\<open>this.windows\<close> is still empty when the pipeline
  is built, so \<^verbatim>\<open>take\<close> gets 0 and waits for no signal: 5000 ms later, with no window
  having signalled, both windows are registered.
\<close>

theorem first_initializeOverlay_registers_unloaded:
  "windows newService = [] \<and>
   map remaining (subscriptions (snd (initializeOverlay exEnv newService))) = [0] \<and>
   map (loadListener \<circ> snd) (windows (elapse exEnv 5000 (snd (initializeOverlay exEnv newService)))) =
     [True, True] \<and>
   filter isAddHWND (overlayCalls (elapse exEnv 5000 (snd (initializeOverlay exEnv newService)))) =
     [AddHWND 0, AddHWND 1]"
  by (simp add: model_defs upt_rec)

text \<open>
  For contrast, an initialisation that finds the two windows of an earlier run in
  \<^verbatim>\<open>this.windows\<close> gives \<^verbatim>\<open>take\<close> the count 2: nothing is registered while a signal is
  missing, nor less than 5000 ms after the second signal.
\<close>

lemma second_initializeOverlay_waits:
  "map remaining (subscriptions restartedService) = [0, 2] \<and>
   filter isAddHWND (overlayCalls (elapse exEnv 5000 restartedService)) = [] \<and>
   filter isAddHWND (overlayCalls (elapse exEnv 5000 (didFinishLoad chat restartedService))) = [] \<and>
   filter isAddHWND
     (overlayCalls (elapse exEnv 4999 (didFinishLoad chat (didFinishLoad recentEvents restartedService)))) = [] \<and>
   filter isAddHWND
     (overlayCalls (elapse exEnv 5000 (didFinishLoad chat (didFinishLoad recentEvents restartedService)))) =
     [AddHWND 4, AddHWND 5]"
  by (simp add: model_defs upt_rec)

end
